theory Spec2Isabelle
  imports Complex_Main
begin

section \<open>Smart classroom simulation: the environment model and the control loop\<close>

text \<open>
  A shallow embedding of \<^verbatim>\<open>config.py\<close>, \<^verbatim>\<open>classroom_model.py\<close>,
  \<^verbatim>\<open>ml_model.py\<close> and the simulated loop of \<^verbatim>\<open>simulation.py\<close>.

  Numbers. Python's \<^verbatim>\<open>float\<close> arithmetic is read as arithmetic over \<^typ>\<open>real\<close>;
  the student count, which the schedule passes as a Python \<^verbatim>\<open>int\<close>, is an \<^typ>\<open>int\<close>.
  True division by zero raises in Python and is a branch of the model.

  Randomness. Each call of \<^verbatim>\<open>update\<close> draws three values from numpy's process-wide
  generator (\<^verbatim>\<open>np.random.normal\<close>). The model takes the three drawn values as an
  argument, so every theorem holds for whatever values are drawn.
\<close>

subsection \<open>Errors\<close>

datatype error =
    ZeroDivisionError
  | ValueError string
  | FileNotFoundError
  | ModelError

subsection \<open>config.py\<close>

record thresholds_table =
  co2_max :: real
  temp_min :: real
  temp_max :: real
  noise_max :: real
  light_min :: real

record config =
  simulation_duration :: int
  time_step :: int
  room_capacity :: real
  room_volume :: real
  thresholds :: thresholds_table
  co2_per_person :: real
  heat_per_person :: real

definition SIMULATION_CONFIG :: config where
  "SIMULATION_CONFIG =
     \<lparr> simulation_duration = 480,
       time_step = 1,
       room_capacity = 30,
       room_volume = 200,
       thresholds = \<lparr> co2_max = 1000, temp_min = 20, temp_max = 26,
                      noise_max = 65, light_min = 300 \<rparr>,
       co2_per_person = 0.004,
       heat_per_person = 100 \<rparr>"

subsection \<open>classroom\_model.py\<close>

text \<open>The attributes of \<^verbatim>\<open>ClassroomEnvironment\<close> (its \<^verbatim>\<open>config\<close> is passed along).\<close>

record ClassroomEnvironment =
  co2 :: real
  temperature :: real
  humidity :: real
  noise :: real
  light :: real
  occupancy :: real
  student_count :: int

text \<open>The dictionary that \<^verbatim>\<open>update\<close> returns, one field per key.\<close>

record env_data =
  env_co2 :: real
  env_temperature :: real
  env_humidity :: real
  env_noise :: real
  env_light :: real
  env_occupancy :: real

text \<open>
  The three values drawn in one call of \<^verbatim>\<open>update\<close>, in the order of the draws:
  \<^verbatim>\<open>normal(0, 5)\<close> for CO2, \<^verbatim>\<open>normal(0, 0.1)\<close> for the temperature,
  \<^verbatim>\<open>normal(0, 2)\<close> for the noise level.
\<close>

record gauss =
  g_co2 :: real
  g_temperature :: real
  g_noise :: real

definition ClassroomEnvironment_init :: ClassroomEnvironment where
  "ClassroomEnvironment_init =
     \<lparr> co2 = 400, temperature = 22, humidity = 50, noise = 40, light = 500,
       occupancy = 0, student_count = 0 \<rparr>"

definition air_change_rate :: "bool \<Rightarrow> real" where
  "air_change_rate fan = (if fan then 0.5 else 0.1)"

text \<open>
  The amount subtracted on line 28:
  \<^verbatim>\<open>air_change_rate * (self.co2 - 400) * time_step / 60\<close>.
\<close>

definition co2_decay :: "bool \<Rightarrow> real \<Rightarrow> real \<Rightarrow> real" where
  "co2_decay fan c dt = air_change_rate fan * (c - 400) * dt / 60"

text \<open>
  \<^verbatim>\<open>ClassroomEnvironment.update\<close>. The result is the error raised, or the object
  after the call together with the returned dictionary. The two divisions are the
  places where the call can raise; the assignments made before a raise are lost with
  the aborted run and are not part of the error value.
\<close>

definition update ::
  "config \<Rightarrow> ClassroomEnvironment \<Rightarrow> real \<Rightarrow> int \<Rightarrow> bool \<Rightarrow> bool \<Rightarrow> gauss
     \<Rightarrow> error + (ClassroomEnvironment \<times> env_data)" where
  "update cfg self dt sc fan ac g =
     (if room_capacity cfg = 0 then Inl ZeroDivisionError
      else
        let occ = real_of_int sc / room_capacity cfg;
            co2_production = real_of_int sc * co2_per_person cfg * dt;
            c1 = co2 self + co2_production;
            c2 = c1 - co2_decay fan c1 dt;
            heat_gain0 = real_of_int sc * heat_per_person cfg * dt / 3600;
            heat_gain = (if ac then heat_gain0 - 2000 * dt / 3600 else heat_gain0)
        in
          if room_volume cfg * 1.2 = 0 then Inl ZeroDivisionError
          else
            let t1 = temperature self + heat_gain / (room_volume cfg * 1.2);
                c3 = c2 + g_co2 g;
                t2 = t1 + g_temperature g;
                nz = 40 + real_of_int sc * 0.8 + g_noise g;
                self' = self \<lparr> co2 := c3, temperature := t2, noise := nz,
                               occupancy := occ, student_count := sc \<rparr>
            in Inr (self',
                 \<lparr> env_co2 = max 400 (co2 self'),
                   env_temperature = temperature self',
                   env_humidity = humidity self',
                   env_noise = max 30 (noise self'),
                   env_light = light self',
                   env_occupancy = occupancy self' \<rparr>))"

subsection \<open>ml\_model.py\<close>

text \<open>
  The fitted random forest is an object of scikit-learn. It is taken as a parameter:
  a function from the feature row built from the snapshot to the label
  (\<^verbatim>\<open>bool(prediction)\<close>) and the largest class probability
  (\<^verbatim>\<open>float(max(probability))\<close>), or to the error the library raises.
  Training and saving are not part of the simulated loop and are not modelled.
\<close>

type_synonym sk_model = "env_data \<Rightarrow> error + (bool \<times> real)"

record LearningEnvironmentClassifier =
  model :: "sk_model option"
  clf_thresholds :: "string \<rightharpoonup> real"

record prediction =
  conducive :: bool
  confidence :: real
  pred_thresholds :: "string \<rightharpoonup> real"

definition LearningEnvironmentClassifier_init :: LearningEnvironmentClassifier where
  "LearningEnvironmentClassifier_init = \<lparr> model = None, clf_thresholds = Map.empty \<rparr>"

definition predict ::
  "LearningEnvironmentClassifier \<Rightarrow> env_data \<Rightarrow> error + prediction" where
  "predict self environment_data =
     (case model self of
        None \<Rightarrow> Inl (ValueError ''Model not trained. Call train_from_csv first.'')
      | Some m \<Rightarrow>
          (case m environment_data of
             Inl e \<Rightarrow> Inl e
           | Inr (label, p) \<Rightarrow>
               Inr \<lparr> conducive = label, confidence = p,
                     pred_thresholds = clf_thresholds self \<rparr>))"

text \<open>
  \<^verbatim>\<open>load_model\<close>. The first argument is what \<^verbatim>\<open>trained_model.pkl\<close> holds:
  \<open>None\<close> when the file cannot be opened, otherwise the pickled \<^verbatim>\<open>model\<close>
  attribute, which is itself \<open>None\<close> when an untrained classifier was saved.
\<close>

definition load_model ::
  "sk_model option option \<Rightarrow> LearningEnvironmentClassifier
     \<Rightarrow> error + LearningEnvironmentClassifier" where
  "load_model file self =
     (case file of
        None \<Rightarrow> Inl FileNotFoundError
      | Some m \<Rightarrow> Inr (self \<lparr> model := m \<rparr>))"

subsection \<open>simulation.py: the state of a run\<close>

record intervention =
  time :: nat
  iv_co2 :: real
  iv_temperature :: real
  action :: "string option"

record log_entry =
  timestamp :: nat
  log_student_count :: int
  log_co2 :: real
  log_temperature :: real
  log_humidity :: real
  log_noise :: real
  log_light :: real
  log_occupancy :: real
  log_fan_on :: bool
  log_ac_on :: bool

record SmartClassroomSimulation =
  classroom :: ClassroomEnvironment
  ml_classifier :: LearningEnvironmentClassifier
  interventions :: "intervention list"
  log_entries :: "log_entry list"
  fan_on :: bool
  ac_on :: bool
  lights_on :: bool

text \<open>
  \<^verbatim>\<open>__init__\<close>. The \<^verbatim>\<open>try\<close>/\<^verbatim>\<open>except\<close> around \<^verbatim>\<open>load_model\<close>
  catches every exception and only prints a message, so the classifier stays as its
  own constructor left it. The constructor is given the type of an operation that can
  fail; the three \<^verbatim>\<open>env.process\<close> calls are the initial event queue of
  \<open>agenda\<close> below.
\<close>

definition SmartClassroomSimulation_init ::
  "config \<Rightarrow> sk_model option option \<Rightarrow> error + SmartClassroomSimulation" where
  "SmartClassroomSimulation_init cfg file =
     Inr \<lparr> classroom = ClassroomEnvironment_init,
           ml_classifier =
             (case load_model file LearningEnvironmentClassifier_init of
                Inl e \<Rightarrow> LearningEnvironmentClassifier_init
              | Inr c \<Rightarrow> c),
           interventions = [],
           log_entries = [],
           fan_on = False,
           ac_on = False,
           lights_on = True \<rparr>"

subsection \<open>simulation.py: the bodies of the three processes\<close>

definition update_environment ::
  "config \<Rightarrow> gauss \<Rightarrow> SmartClassroomSimulation \<Rightarrow> int
     \<Rightarrow> error + (SmartClassroomSimulation \<times> env_data)" where
  "update_environment cfg g self sc =
     (case update cfg (classroom self) 1 sc (fan_on self) (ac_on self) g of
        Inl e \<Rightarrow> Inl e
      | Inr (c, env) \<Rightarrow> Inr (self \<lparr> classroom := c \<rparr>, env))"

text \<open>
  \<^verbatim>\<open>trigger_interventions\<close>; \<open>now\<close> is \<^verbatim>\<open>self.env.now\<close>. The
  \<^verbatim>\<open>print\<close> calls are left out.
\<close>

definition trigger_interventions ::
  "config \<Rightarrow> nat \<Rightarrow> SmartClassroomSimulation \<Rightarrow> env_data \<Rightarrow> prediction
     \<Rightarrow> SmartClassroomSimulation" where
  "trigger_interventions cfg now self env prediction =
     (let intervention =
            \<lparr> time = now, iv_co2 = env_co2 env,
              iv_temperature = env_temperature env, action = None \<rparr>;
          (intervention', self') =
            (if env_co2 env > co2_max (thresholds cfg) then
               (intervention \<lparr> action := Some ''activate_ventilation'' \<rparr>,
                self \<lparr> fan_on := True \<rparr>)
             else if env_temperature env > temp_max (thresholds cfg) then
               (intervention \<lparr> action := Some ''activate_ac'' \<rparr>,
                self \<lparr> ac_on := True \<rparr>)
             else if env_noise env > noise_max (thresholds cfg) then
               (intervention \<lparr> action := Some ''send_alert'' \<rparr>, self)
             else (intervention, self))
      in self' \<lparr> interventions := interventions self' @ [intervention'] \<rparr>)"

text \<open>One pass through the body of the \<^verbatim>\<open>while True\<close> loop of \<^verbatim>\<open>ml_monitoring\<close>.\<close>

definition ml_monitoring ::
  "config \<Rightarrow> nat \<Rightarrow> gauss \<Rightarrow> SmartClassroomSimulation
     \<Rightarrow> error + SmartClassroomSimulation" where
  "ml_monitoring cfg now g self =
     (case update cfg (classroom self) 1 (student_count (classroom self))
             (fan_on self) (ac_on self) g of
        Inl e \<Rightarrow> Inl e
      | Inr (c, env) \<Rightarrow>
          (let self1 = self \<lparr> classroom := c \<rparr> in
           case predict (ml_classifier self1) env of
             Inl e \<Rightarrow> Inl e
           | Inr prediction \<Rightarrow>
               Inr (if \<not> conducive prediction
                    then trigger_interventions cfg now self1 env prediction
                    else self1)))"

text \<open>One pass through the body of the \<^verbatim>\<open>while True\<close> loop of \<^verbatim>\<open>data_logging\<close>.\<close>

definition data_logging ::
  "config \<Rightarrow> nat \<Rightarrow> gauss \<Rightarrow> SmartClassroomSimulation
     \<Rightarrow> error + SmartClassroomSimulation" where
  "data_logging cfg now g self =
     (case update cfg (classroom self) 1 (student_count (classroom self))
             (fan_on self) (ac_on self) g of
        Inl e \<Rightarrow> Inl e
      | Inr (c, env) \<Rightarrow>
          (let self1 = self \<lparr> classroom := c \<rparr>;
               entry =
                 \<lparr> timestamp = now,
                   log_student_count = student_count (classroom self1),
                   log_co2 = env_co2 env,
                   log_temperature = env_temperature env,
                   log_humidity = env_humidity env,
                   log_noise = env_noise env,
                   log_light = env_light env,
                   log_occupancy = env_occupancy env,
                   log_fan_on = fan_on self1,
                   log_ac_on = ac_on self1 \<rparr>
           in Inr (self1 \<lparr> log_entries := log_entries self1 @ [entry] \<rparr>)))"

subsection \<open>simulation.py: the three processes under the event queue\<close>

text \<open>
  The generators run under SimPy, which is not part of the repository. What the model
  takes from it: \<^verbatim>\<open>env.process\<close> queues an initialisation event at the
  current time with priority 0 (urgent); \<^verbatim>\<open>env.timeout(d)\<close> queues an event at
  \<open>now + d\<close> with priority 1 (normal); every queued event gets the next event number;
  \<^verbatim>\<open>env.run(until)\<close> queues an urgent stop event at time \<open>until\<close> and then
  pops the events in the order of (time, priority, number), resuming the generator that
  waits for each, until the stop event is popped. All events at time \<open>until\<close> or later
  are timeouts, hence come after the stop event and are never processed.
\<close>

datatype process = P_schedule | P_monitoring | P_logging

datatype activity = Update_environment int | Monitoring | Logging

type_synonym event = "nat \<times> nat \<times> nat \<times> process"

text \<open>
  The state of the generator \<^verbatim>\<open>school_day_schedule\<close>: \<open>None\<close> before it has
  started, afterwards the loops still to run, each with the number of passes left and
  the student count it passes to \<^verbatim>\<open>update_environment\<close>.
\<close>

type_synonym schedule_state = "(nat \<times> int) list option"

definition school_day_loops :: "(nat \<times> int) list" where
  "school_day_loops = [(90, 30), (15, 5), (90, 25)]"

text \<open>
  Resuming \<^verbatim>\<open>school_day_schedule\<close> once: the student count of the update it makes
  (if any), the delay of the timeout it yields (\<open>None\<close> when the generator returns)
  and its next state.
\<close>

fun school_day_schedule :: "schedule_state \<Rightarrow> int option \<times> nat option \<times> schedule_state" where
  "school_day_schedule None = (None, Some 60, Some school_day_loops)"
| "school_day_schedule (Some []) = (None, None, Some [])"
| "school_day_schedule (Some ((0, sc) # rest)) = school_day_schedule (Some rest)"
| "school_day_schedule (Some ((Suc n, sc) # rest)) = (Some sc, Some 1, Some ((n, sc) # rest))"

text \<open>
  Resuming a process once: what it does before its next \<^verbatim>\<open>yield\<close>, and the delay
  of the timeout it yields.
\<close>

fun resume :: "process \<Rightarrow> schedule_state \<Rightarrow> activity option \<times> nat option \<times> schedule_state" where
  "resume P_schedule st =
     (case school_day_schedule st of
        (sc, d, st') \<Rightarrow> (map_option Update_environment sc, d, st'))"
| "resume P_monitoring st = (Some Monitoring, Some 5, st)"
| "resume P_logging st = (Some Logging, Some 1, st)"

fun earlier :: "event \<Rightarrow> event \<Rightarrow> bool" where
  "earlier (t1, p1, i1, _) (t2, p2, i2, _) =
     (t1 < t2 \<or> (t1 = t2 \<and> (p1 < p2 \<or> (p1 = p2 \<and> i1 < i2))))"

text \<open>The queue is kept sorted, so that its head is the event the heap would pop.\<close>

fun heappush :: "event \<Rightarrow> event list \<Rightarrow> event list" where
  "heappush e [] = [e]"
| "heappush e (x # xs) = (if earlier e x then e # x # xs else x # heappush e xs)"

text \<open>
  \<^verbatim>\<open>env.run(until)\<close>, as far as the order of the process bodies goes: the list of
  (time, activity) in the order in which the bodies run. The order does not depend
  on the data, since no generator branches on the environment.
\<close>

function env_run ::
  "nat \<Rightarrow> event list \<Rightarrow> nat \<Rightarrow> schedule_state \<Rightarrow> (nat \<times> activity) list" where
  "env_run until [] eid st = []"
| "env_run until ((t, pr, i, p) # q) eid st =
     (if until \<le> t then []
      else
        (case resume p st of
           (a, d, st') \<Rightarrow>
             (case a of None \<Rightarrow> [] | Some act \<Rightarrow> [(t, act)])
             @ env_run until
                 (case d of None \<Rightarrow> q | Some dl \<Rightarrow> heappush (t + dl, 1, eid, p) q)
                 (Suc eid) st'))"
  by pat_completeness auto

lemma sum_list_heappush:
  "sum_list (map f (heappush e q)) = (f e :: nat) + sum_list (map f q)"
  by (induction q) auto

lemma school_day_schedule_delay:
  "school_day_schedule st = (sc, Some dl, st') \<Longrightarrow> 0 < dl"
  by (induction st arbitrary: sc dl st' rule: school_day_schedule.induct) auto

lemma resume_delay: "(a, Some dl, st') = resume p st \<Longrightarrow> 0 < dl"
  by (cases p) (auto split: prod.splits dest: school_day_schedule_delay)

termination env_run
proof (relation "measure (\<lambda>(until, q, eid, st). sum_list (map (\<lambda>e. until - fst e) q))",
    goal_cases)
  case 1
  show ?case by simp
next
  case (2 until t pr i p q eid st a y d st')
  then have r: "(a, d, st') = resume p st" by simp
  show ?case
  proof (cases d)
    case None
    with 2 show ?thesis by simp
  next
    case (Some dl)
    with r have "0 < dl" by (auto dest: resume_delay)
    with 2 Some show ?thesis by (simp add: sum_list_heappush)
  qed
qed

declare env_run.simps [simp del]

text \<open>
  The event queue as \<^verbatim>\<open>__init__\<close> leaves it (events 0, 1 and 2); the stop event
  of \<^verbatim>\<open>env.run\<close> takes number 3.
\<close>

definition agenda :: "nat \<Rightarrow> (nat \<times> activity) list" where
  "agenda until =
     env_run until [(0, 0, 0, P_schedule), (0, 0, 1, P_monitoring), (0, 0, 2, P_logging)]
       4 None"

text \<open>Running one process body at time \<open>now\<close>, with the values \<open>g\<close> drawn in it.\<close>

fun step ::
  "config \<Rightarrow> gauss \<Rightarrow> nat \<times> activity \<Rightarrow> SmartClassroomSimulation
     \<Rightarrow> error + SmartClassroomSimulation" where
  "step cfg g (now, Update_environment sc) self =
     (case update_environment cfg g self sc of
        Inl e \<Rightarrow> Inl e
      | Inr (self', env) \<Rightarrow> Inr self')"
| "step cfg g (now, Monitoring) self = ml_monitoring cfg now g self"
| "step cfg g (now, Logging) self = data_logging cfg now g self"

text \<open>
  Running the bodies in order. Every body calls \<^verbatim>\<open>update\<close> exactly once, so the
  \<open>k\<close>-th body of the run consumes the \<open>k\<close>-th triple \<open>rng k\<close> of the random stream.
  An exception raised in a body ends the run: \<^verbatim>\<open>env.run\<close> re-raises it. The model
  returns the first exception raised and drops the state of the aborted run.
\<close>

fun run_agenda ::
  "config \<Rightarrow> (nat \<Rightarrow> gauss) \<Rightarrow> nat \<Rightarrow> (nat \<times> activity) list \<Rightarrow> SmartClassroomSimulation
     \<Rightarrow> error + SmartClassroomSimulation" where
  "run_agenda cfg rng k [] self = Inr self"
| "run_agenda cfg rng k (a # as) self =
     (case step cfg (rng k) a self of
        Inl e \<Rightarrow> Inl e
      | Inr self' \<Rightarrow> run_agenda cfg rng (Suc k) as self')"

text \<open>
  \<^verbatim>\<open>run\<close>, up to the end of the simulated loop (saving and plotting come after it).
  SimPy refuses an \<open>until\<close> that is not after the current time 0 with a
  \<^verbatim>\<open>ValueError\<close>, whose message is abridged here.
\<close>

definition run ::
  "config \<Rightarrow> (nat \<Rightarrow> gauss) \<Rightarrow> SmartClassroomSimulation \<Rightarrow> error + SmartClassroomSimulation" where
  "run cfg rng self =
     (if simulation_duration cfg \<le> 0
      then Inl (ValueError ''until must be greater than the current simulation time'')
      else run_agenda cfg rng 0 (agenda (nat (simulation_duration cfg))) self)"


subsection \<open>Notions used in the statements\<close>


text \<open>The exception that \<^verbatim>\<open>predict\<close> raises when no model is loaded.\<close>

definition not_trained :: error where
  "not_trained = ValueError ''Model not trained. Call train_from_csv first.''"



subsection \<open>Concrete inputs\<close>

text \<open>Draws of the random source: none at all, and one that pushes below both floors.\<close>

definition no_jitter :: gauss where
  "no_jitter = \<lparr> g_co2 = 0, g_temperature = 0, g_noise = 0 \<rparr>"

definition below_floor_draw :: gauss where
  "below_floor_draw = \<lparr> g_co2 = - 25, g_temperature = 0, g_noise = - 15 \<rparr>"

definition quiet_rng :: "nat \<Rightarrow> gauss" where
  "quiet_rng k = no_jitter"

text \<open>Two trained models: one that finds every snapshot conducive, one that finds none.\<close>

definition always_conducive :: sk_model where
  "always_conducive env = Inr (True, 1)"

definition never_conducive :: sk_model where
  "never_conducive env = Inr (False, 1)"

text \<open>The simulation object as the constructor leaves it when the file holds model \<open>m\<close>.\<close>

definition fresh_simulation :: "sk_model \<Rightarrow> SmartClassroomSimulation" where
  "fresh_simulation m = projr (SmartClassroomSimulation_init SIMULATION_CONFIG (Some (Some m)))"

text \<open>A room with 30 students, a room with stale air, and a hot room.\<close>

definition occupied_simulation :: SmartClassroomSimulation where
  "occupied_simulation =
     (fresh_simulation always_conducive)
       \<lparr> classroom := ClassroomEnvironment_init \<lparr> student_count := 30 \<rparr> \<rparr>"

definition stale_simulation :: SmartClassroomSimulation where
  "stale_simulation =
     (fresh_simulation never_conducive)
       \<lparr> classroom := ClassroomEnvironment_init \<lparr> co2 := 1100 \<rparr> \<rparr>"

definition hot_simulation :: SmartClassroomSimulation where
  "hot_simulation =
     (fresh_simulation never_conducive)
       \<lparr> classroom := ClassroomEnvironment_init \<lparr> temperature := 30 \<rparr> \<rparr>"

text \<open>A non-conducive verdict, and a snapshot with given CO2, temperature and noise.\<close>

definition verdict_no :: prediction where
  "verdict_no = \<lparr> conducive = False, confidence = 1, pred_thresholds = Map.empty \<rparr>"

definition snapshot :: "real \<Rightarrow> real \<Rightarrow> real \<Rightarrow> env_data" where
  "snapshot c t n =
     \<lparr> env_co2 = c, env_temperature = t, env_humidity = 50, env_noise = n,
       env_light = 500, env_occupancy = 1 \<rparr>"

section \<open>Facts about the model\<close>

subsection \<open>The environment update\<close>

lemma update_Inr_iff:
  "(\<exists>r. update cfg self dt sc fan ac g = Inr r)
     \<longleftrightarrow> room_capacity cfg \<noteq> 0 \<and> room_volume cfg \<noteq> 0"
  by (simp add: update_def Let_def)

lemma update_Inl:
  "update cfg self dt sc fan ac g = Inl e \<Longrightarrow> e = ZeroDivisionError"
  by (simp add: update_def Let_def split: if_splits)

lemma update_snapshot:
  assumes "update cfg self dt sc fan ac g = Inr (self', snap)"
  shows "env_co2 snap = max 400 (co2 self')"
    and "env_noise snap = max 30 (noise self')"
    and "env_temperature snap = temperature self'"
  using assms by (auto simp: update_def Let_def split: if_splits)

lemma update_stored:
  assumes "update cfg self dt sc fan ac g = Inr (self', snap)"
  shows "co2 self' =
           co2 self + real_of_int sc * co2_per_person cfg * dt
           - co2_decay fan (co2 self + real_of_int sc * co2_per_person cfg * dt) dt
           + g_co2 g"
    and "noise self' = 40 + real_of_int sc * 0.8 + g_noise g"
    and "student_count self' = sc"
    and "temperature self' =
           temperature self
           + (if ac then real_of_int sc * heat_per_person cfg * dt / 3600 - 2000 * dt / 3600
              else real_of_int sc * heat_per_person cfg * dt / 3600)
             / (room_volume cfg * 1.2)
           + g_temperature g"
  using assms by (auto simp: update_def Let_def split: if_splits)

lemma co2_decay_less:
  assumes "400 < c" and "0 < dt"
  shows "co2_decay False c dt < co2_decay True c dt"
proof -
  from assms have pos: "0 < (c - 400) * dt" by simp
  have off: "co2_decay False c dt = ((c - 400) * dt) / 600"
    by (simp add: co2_decay_def air_change_rate_def)
  have on: "co2_decay True c dt = ((c - 400) * dt) / 120"
    by (simp add: co2_decay_def air_change_rate_def)
  from pos show ?thesis
    unfolding off on by (simp add: mult.commute)
qed

subsection \<open>The intervention controller and the constructor\<close>

lemma trigger_interventions_frame:
  "classroom (trigger_interventions cfg now self env p) = classroom self"
  "ml_classifier (trigger_interventions cfg now self env p) = ml_classifier self"
  "log_entries (trigger_interventions cfg now self env p) = log_entries self"
  "lights_on (trigger_interventions cfg now self env p) = lights_on self"
  by (simp_all add: trigger_interventions_def Let_def)

lemma trigger_interventions_fan_on:
  "fan_on (trigger_interventions cfg now self env p)
     = (fan_on self \<or> env_co2 env > co2_max (thresholds cfg))"
  by (simp add: trigger_interventions_def Let_def)

lemma trigger_interventions_ac_on:
  "ac_on (trigger_interventions cfg now self env p)
     = (ac_on self \<or> (\<not> env_co2 env > co2_max (thresholds cfg)
                        \<and> env_temperature env > temp_max (thresholds cfg)))"
  by (simp add: trigger_interventions_def Let_def)

lemma trigger_interventions_history:
  "interventions (trigger_interventions cfg now self env p) =
     interventions self @
       [\<lparr> time = now, iv_co2 = env_co2 env, iv_temperature = env_temperature env,
          action =
            (if env_co2 env > co2_max (thresholds cfg) then Some ''activate_ventilation''
             else if env_temperature env > temp_max (thresholds cfg) then Some ''activate_ac''
             else if env_noise env > noise_max (thresholds cfg) then Some ''send_alert''
             else None) \<rparr>]"
  by (simp add: trigger_interventions_def Let_def)

lemma ml_monitoring_non_conducive:
  assumes "update cfg (classroom self) 1 (student_count (classroom self))
             (fan_on self) (ac_on self) g = Inr (c, env)"
    and "predict (ml_classifier self) env = Inr p"
    and "\<not> conducive p"
  shows "ml_monitoring cfg now g self
           = Inr (trigger_interventions cfg now (self \<lparr> classroom := c \<rparr>) env p)"
  using assms by (simp add: ml_monitoring_def Let_def)

lemma ml_monitoring_conducive:
  assumes "update cfg (classroom self) 1 (student_count (classroom self))
             (fan_on self) (ac_on self) g = Inr (c, env)"
    and "predict (ml_classifier self) env = Inr p"
    and "conducive p"
  shows "ml_monitoring cfg now g self = Inr (self \<lparr> classroom := c \<rparr>)"
  using assms by (simp add: ml_monitoring_def Let_def)

lemma fresh_simulation_fields:
  "classroom (fresh_simulation m) = ClassroomEnvironment_init"
  "model (ml_classifier (fresh_simulation m)) = Some m"
  "interventions (fresh_simulation m) = []"
  "log_entries (fresh_simulation m) = []"
  "fan_on (fresh_simulation m) = False"
  "ac_on (fresh_simulation m) = False"
  by (simp_all add: fresh_simulation_def SmartClassroomSimulation_init_def load_model_def
      LearningEnvironmentClassifier_init_def)

lemma init_fields:
  assumes "SmartClassroomSimulation_init cfg file = Inr sim"
  shows "interventions sim = []" and "classroom sim = ClassroomEnvironment_init"
    and "fan_on sim = False" and "ac_on sim = False"
    and "model (ml_classifier sim) = (case file of None \<Rightarrow> None | Some m \<Rightarrow> m)"
  using assms
  by (auto simp: SmartClassroomSimulation_init_def load_model_def
      LearningEnvironmentClassifier_init_def split: option.splits)

subsection \<open>Process bodies and runs\<close>

lemma step_actuators:
  assumes "step cfg g a self = Inr self'"
  shows "fan_on self \<longrightarrow> fan_on self'" and "ac_on self \<longrightarrow> ac_on self'"
proof -
  obtain now act where a: "a = (now, act)" by (cases a)
  show "fan_on self \<longrightarrow> fan_on self'"
    using assms unfolding a
    by (cases act)
      (auto simp: update_environment_def ml_monitoring_def data_logging_def Let_def
        trigger_interventions_fan_on split: sum.splits if_splits)
  show "ac_on self \<longrightarrow> ac_on self'"
    using assms unfolding a
    by (cases act)
      (auto simp: update_environment_def ml_monitoring_def data_logging_def Let_def
        trigger_interventions_ac_on split: sum.splits if_splits)
qed

lemma run_agenda_actuators:
  "run_agenda cfg rng k acts self = Inr self' \<Longrightarrow>
     (fan_on self \<longrightarrow> fan_on self') \<and> (ac_on self \<longrightarrow> ac_on self')"
proof (induction acts arbitrary: k self)
  case Nil
  then show ?case by simp
next
  case (Cons a acts)
  from Cons.prems obtain s1 where
    s1: "step cfg (rng k) a self = Inr s1" and
    r: "run_agenda cfg rng (Suc k) acts s1 = Inr self'"
    by (auto split: sum.splits)
  from step_actuators [OF s1] Cons.IH [OF r] show ?case by blast
qed

lemma run_agenda_append:
  "run_agenda cfg rng k (xs @ ys) self =
     (case run_agenda cfg rng k xs self of
        Inl e \<Rightarrow> Inl e
      | Inr s \<Rightarrow> run_agenda cfg rng (k + length xs) ys s)"
  by (induction xs arbitrary: k self) (auto split: sum.splits)


lemma step_ml_classifier:
  "step cfg g a self = Inr self' \<Longrightarrow> ml_classifier self' = ml_classifier self"
  by (cases a; cases "snd a")
    (auto simp: update_environment_def ml_monitoring_def data_logging_def Let_def
      trigger_interventions_frame split: sum.splits if_splits)

lemma step_total:
  assumes cfg: "room_capacity cfg \<noteq> 0" "room_volume cfg \<noteq> 0"
    and m: "model (ml_classifier self) = Some m" "\<And>env. \<exists>r. m env = Inr r"
  shows "\<exists>self'. step cfg g a self = Inr self'"
proof -
  obtain now act where a: "a = (now, act)" by (cases a)
  have u: "\<exists>c env. update cfg (classroom self) 1 sc (fan_on self) (ac_on self) g = Inr (c, env)"
    for sc
    using update_Inr_iff [of cfg "classroom self" 1 sc "fan_on self" "ac_on self" g] cfg
    by auto
  show ?thesis
  proof (cases act)
    case (Update_environment sc)
    with u [of sc] a show ?thesis by (auto simp: update_environment_def)
  next
    case Monitoring
    from u obtain c env where
      "update cfg (classroom self) 1 (student_count (classroom self)) (fan_on self) (ac_on self) g
         = Inr (c, env)"
      by blast
    moreover from m(2) obtain label p where "m env = Inr (label, p)" by fastforce
    ultimately show ?thesis
      using a Monitoring m(1) by (simp add: ml_monitoring_def predict_def Let_def)
  next
    case Logging
    from u obtain c env where
      "update cfg (classroom self) 1 (student_count (classroom self)) (fan_on self) (ac_on self) g
         = Inr (c, env)"
      by blast
    with a Logging show ?thesis by (simp add: data_logging_def Let_def)
  qed
qed

lemma run_agenda_total:
  assumes cfg: "room_capacity cfg \<noteq> 0" "room_volume cfg \<noteq> 0"
    and m: "model (ml_classifier self) = Some m" "\<And>env. \<exists>r. m env = Inr r"
  shows "\<exists>self'. run_agenda cfg rng k acts self = Inr self'"
  using m(1)
proof (induction acts arbitrary: k self)
  case Nil
  show ?case by simp
next
  case (Cons a acts)
  from step_total [OF cfg Cons.prems m(2)] obtain s1 where
    s1: "step cfg (rng k) a self = Inr s1"
    by blast
  from step_ml_classifier [OF s1] Cons.prems have "model (ml_classifier s1) = Some m"
    by simp
  from Cons.IH [OF this] s1 show ?case by simp
qed






subsection \<open>The event queue\<close>









text \<open>The first body of every run is a monitoring pass at time 0.\<close>

lemma agenda_head: "0 < until \<Longrightarrow> \<exists>rest. agenda until = (0, Monitoring) # rest"
  unfolding agenda_def
  apply (subst env_run.simps)
  apply (simp add: school_day_loops_def)
  apply (subst env_run.simps)
  apply simp
  done

section \<open>Properties of the program\<close>

text \<open>
  C1. \<^verbatim>\<open>trigger_interventions\<close> fires the first rule that matches, in the order
  CO2, temperature, noise: above \<open>co2_max\<close> it records \<open>activate_ventilation\<close>
  and switches the fan on, leaving the AC as it was; otherwise above \<open>temp_max\<close> it
  records \<open>activate_ac\<close> and switches the AC on, leaving the fan as it was; otherwise
  above \<open>noise_max\<close> it records \<open>send_alert\<close> and changes no actuator. In
  particular, with \<open>co2 = 1050\<close> and \<open>co2_max = 1000\<close> the fan is switched on
  whatever the temperature and the noise are, and with \<open>co2 = 900\<close> (under the same
  \<open>co2_max\<close>), \<open>temperature = 27\<close> and \<open>temp_max = 26\<close> the action is
  \<open>activate_ac\<close> and the fan is unchanged.
\<close>

theorem trigger_interventions_priority:
  fixes cfg now self env p
  defines "self' \<equiv> trigger_interventions cfg now self env p"
    and "th \<equiv> thresholds cfg"
  defines "record_of a \<equiv>
      \<lparr> time = now, iv_co2 = env_co2 env, iv_temperature = env_temperature env,
        action = Some a \<rparr>"
  shows
    "(env_co2 env > co2_max th \<longrightarrow>
        interventions self' = interventions self @ [record_of ''activate_ventilation'']
        \<and> fan_on self' \<and> ac_on self' = ac_on self)
   \<and> (\<not> env_co2 env > co2_max th \<and> env_temperature env > temp_max th \<longrightarrow>
        interventions self' = interventions self @ [record_of ''activate_ac'']
        \<and> ac_on self' \<and> fan_on self' = fan_on self)
   \<and> (\<not> env_co2 env > co2_max th \<and> \<not> env_temperature env > temp_max th
        \<and> env_noise env > noise_max th \<longrightarrow>
        interventions self' = interventions self @ [record_of ''send_alert'']
        \<and> fan_on self' = fan_on self \<and> ac_on self' = ac_on self)
   \<and> (env_co2 env = 1050 \<and> co2_max th = 1000 \<longrightarrow>
        interventions self' = interventions self @ [record_of ''activate_ventilation'']
        \<and> fan_on self')
   \<and> (env_co2 env = 900 \<and> co2_max th = 1000
        \<and> env_temperature env = 27 \<and> temp_max th = 26 \<longrightarrow>
        interventions self' = interventions self @ [record_of ''activate_ac'']
        \<and> fan_on self' = fan_on self)"
  unfolding self'_def th_def record_of_def
  by (simp add: trigger_interventions_history trigger_interventions_fan_on
      trigger_interventions_ac_on)

theorem trigger_interventions_priority_witness:
  "interventions (trigger_interventions SIMULATION_CONFIG 5 (fresh_simulation never_conducive)
       (snapshot 1050 30 80) verdict_no)
     = [\<lparr> time = 5, iv_co2 = 1050, iv_temperature = 30,
          action = Some ''activate_ventilation'' \<rparr>]
   \<and> fan_on (trigger_interventions SIMULATION_CONFIG 5 (fresh_simulation never_conducive)
       (snapshot 1050 30 80) verdict_no)
   \<and> \<not> ac_on (trigger_interventions SIMULATION_CONFIG 5 (fresh_simulation never_conducive)
       (snapshot 1050 30 80) verdict_no)
   \<and> interventions (trigger_interventions SIMULATION_CONFIG 5 (fresh_simulation never_conducive)
       (snapshot 900 27 80) verdict_no)
     = [\<lparr> time = 5, iv_co2 = 900, iv_temperature = 27, action = Some ''activate_ac'' \<rparr>]
   \<and> ac_on (trigger_interventions SIMULATION_CONFIG 5 (fresh_simulation never_conducive)
       (snapshot 900 27 80) verdict_no)
   \<and> \<not> fan_on (trigger_interventions SIMULATION_CONFIG 5 (fresh_simulation never_conducive)
       (snapshot 900 27 80) verdict_no)
   \<and> interventions (trigger_interventions SIMULATION_CONFIG 5 (fresh_simulation never_conducive)
       (snapshot 900 22 80) verdict_no)
     = [\<lparr> time = 5, iv_co2 = 900, iv_temperature = 22, action = Some ''send_alert'' \<rparr>]
   \<and> \<not> fan_on (trigger_interventions SIMULATION_CONFIG 5 (fresh_simulation never_conducive)
       (snapshot 900 22 80) verdict_no)
   \<and> \<not> ac_on (trigger_interventions SIMULATION_CONFIG 5 (fresh_simulation never_conducive)
       (snapshot 900 22 80) verdict_no)"
proof -
  have th: "co2_max (thresholds SIMULATION_CONFIG) = 1000"
    "temp_max (thresholds SIMULATION_CONFIG) = 26"
    "noise_max (thresholds SIMULATION_CONFIG) = 65"
    by (simp_all add: SIMULATION_CONFIG_def)
  note p = trigger_interventions_priority
    [where cfg = SIMULATION_CONFIG and now = 5 and self = "fresh_simulation never_conducive"
       and p = verdict_no]
  from p [where env = "snapshot 1050 30 80"] p [where env = "snapshot 900 27 80"]
    p [where env = "snapshot 900 22 80"]
  show ?thesis
    by (simp add: th snapshot_def fresh_simulation_fields)
qed

text \<open>
  C2 (as the code has it). When no trained model can be loaded, because the file is
  missing or holds an untrained model, the constructor still succeeds: it catches the
  failure and only prints a message. The classifier it holds has no model, so
  \<^verbatim>\<open>predict\<close> raises its \<^verbatim>\<open>ValueError\<close> on every snapshot and never
  returns a verdict. A run with a positive duration and a room of non-zero capacity and
  volume is entered and ends with that error in its first monitoring pass, at time 0.
\<close>

theorem untrained_classifier_aborts_run:
  assumes "file = None \<or> file = Some None"
  shows "\<exists>sim. SmartClassroomSimulation_init cfg file = Inr sim
       \<and> model (ml_classifier sim) = None
       \<and> (\<forall>env. predict (ml_classifier sim) env = Inl not_trained)
       \<and> (0 < simulation_duration cfg \<and> room_capacity cfg \<noteq> 0 \<and> room_volume cfg \<noteq> 0 \<longrightarrow>
            run cfg rng sim = Inl not_trained)"
proof -
  obtain sim where i: "SmartClassroomSimulation_init cfg file = Inr sim"
    by (simp add: SmartClassroomSimulation_init_def)
  from init_fields(5) [OF i] assms have m: "model (ml_classifier sim) = None"
    by auto
  then have p: "predict (ml_classifier sim) env = Inl not_trained" for env
    by (simp add: predict_def not_trained_def)
  have "run cfg rng sim = Inl not_trained"
    if d: "0 < simulation_duration cfg" and c: "room_capacity cfg \<noteq> 0" "room_volume cfg \<noteq> 0"
  proof -
    from d obtain rest where a: "agenda (nat (simulation_duration cfg)) = (0, Monitoring) # rest"
      using agenda_head [of "nat (simulation_duration cfg)"] by auto
    obtain c' env where
      "update cfg (classroom sim) 1 (student_count (classroom sim)) (fan_on sim) (ac_on sim)
         (rng 0) = Inr (c', env)"
      using update_Inr_iff [of cfg "classroom sim" 1 "student_count (classroom sim)"
          "fan_on sim" "ac_on sim" "rng 0"] c
      by auto
    then have "ml_monitoring cfg 0 (rng 0) sim = Inl not_trained"
      by (simp add: ml_monitoring_def Let_def p)
    with d a show ?thesis by (simp add: run_def)
  qed
  with i m p show ?thesis by blast
qed

theorem untrained_classifier_aborts_run_witness:
  "\<exists>sim. SmartClassroomSimulation_init SIMULATION_CONFIG None = Inr sim
     \<and> model (ml_classifier sim) = None
     \<and> run SIMULATION_CONFIG quiet_rng sim = Inl not_trained"
proof -
  have "0 < simulation_duration SIMULATION_CONFIG \<and> room_capacity SIMULATION_CONFIG \<noteq> 0
      \<and> room_volume SIMULATION_CONFIG \<noteq> 0"
    by (simp add: SIMULATION_CONFIG_def)
  with untrained_classifier_aborts_run [of None SIMULATION_CONFIG quiet_rng]
  show ?thesis by blast
qed

text \<open>
  The sentence of the specification fails as it stands: with no file, and with a file
  that holds an untrained model, the constructor returns a simulation object and no
  error; the first monitoring pass of the run updates the environment before
  \<^verbatim>\<open>predict\<close> raises.
\<close>

theorem untrained_classifier_counterexample:
  "\<not> isl (SmartClassroomSimulation_init SIMULATION_CONFIG None)
   \<and> \<not> isl (SmartClassroomSimulation_init SIMULATION_CONFIG (Some None))
   \<and> model (ml_classifier (projr (SmartClassroomSimulation_init SIMULATION_CONFIG None))) = None
   \<and> \<not> isl (update SIMULATION_CONFIG
         (classroom (projr (SmartClassroomSimulation_init SIMULATION_CONFIG None)))
         1 0 False False no_jitter)
   \<and> ml_monitoring SIMULATION_CONFIG 0 no_jitter
         (projr (SmartClassroomSimulation_init SIMULATION_CONFIG None)) = Inl not_trained"
  by (simp add: SmartClassroomSimulation_init_def load_model_def
      LearningEnvironmentClassifier_init_def ml_monitoring_def predict_def not_trained_def
      update_def SIMULATION_CONFIG_def ClassroomEnvironment_init_def Let_def)

text \<open>
  C3. Every call of \<^verbatim>\<open>update\<close> that returns a snapshot returns one with
  \<open>co2 \<ge> 400\<close> and \<open>noise \<ge> 30\<close>, whatever the time step, the student count, the
  actuator flags and the drawn perturbations are; and the call does return whenever the
  room capacity and the room volume are not zero.
\<close>

theorem update_clamp_floors:
  "(room_capacity cfg \<noteq> 0 \<and> room_volume cfg \<noteq> 0 \<longrightarrow>
      (\<exists>self' snap. update cfg self dt sc fan ac g = Inr (self', snap)))
   \<and> (\<forall>self' snap. update cfg self dt sc fan ac g = Inr (self', snap) \<longrightarrow>
         400 \<le> env_co2 snap \<and> 30 \<le> env_noise snap)"
proof (intro conjI impI allI)
  assume "room_capacity cfg \<noteq> 0 \<and> room_volume cfg \<noteq> 0"
  then have "\<exists>r. update cfg self dt sc fan ac g = Inr r"
    using update_Inr_iff [of cfg self dt sc fan ac g] by blast
  then show "\<exists>self' snap. update cfg self dt sc fan ac g = Inr (self', snap)"
    by auto
next
  fix self' snap
  assume "update cfg self dt sc fan ac g = Inr (self', snap)"
  then show "400 \<le> env_co2 snap" by (simp add: update_snapshot)
next
  fix self' snap
  assume "update cfg self dt sc fan ac g = Inr (self', snap)"
  then show "30 \<le> env_noise snap" by (simp add: update_snapshot)
qed

theorem update_clamp_floors_witness:
  "\<exists>self' snap.
     update SIMULATION_CONFIG ClassroomEnvironment_init 1 0 False False
       \<lparr> g_co2 = - 25, g_temperature = 0, g_noise = - 15 \<rparr> = Inr (self', snap)
     \<and> co2 self' = 375 \<and> noise self' = 25
     \<and> 400 \<le> env_co2 snap \<and> 30 \<le> env_noise snap"
proof -
  let ?g = "\<lparr> g_co2 = - 25, g_temperature = 0, g_noise = - 15 \<rparr>"
  have cfg: "room_capacity SIMULATION_CONFIG \<noteq> 0 \<and> room_volume SIMULATION_CONFIG \<noteq> 0"
    by (simp add: SIMULATION_CONFIG_def)
  from update_clamp_floors [of SIMULATION_CONFIG ClassroomEnvironment_init 1 0 False False ?g] cfg
  obtain self' snap where
    r: "update SIMULATION_CONFIG ClassroomEnvironment_init 1 0 False False ?g = Inr (self', snap)"
    and fl: "400 \<le> env_co2 snap \<and> 30 \<le> env_noise snap"
    by blast
  from update_stored(1,2) [OF r] have "co2 self' = 375" and "noise self' = 25"
    by (simp_all add: SIMULATION_CONFIG_def ClassroomEnvironment_init_def co2_decay_def)
  with r fl show ?thesis by blast
qed

text \<open>
  C4 (the code departs from the specification). \<^verbatim>\<open>ml_monitoring\<close> is commented
  ``Get current environment'', and it and \<^verbatim>\<open>data_logging\<close> obtain the snapshot
  by calling \<^verbatim>\<open>classroom.update\<close>, which advances the stored environment by one
  more minute. In a room with 30 students and no random perturbation, a logging pass and
  a monitoring pass each move the stored CO2 from 400 to 400.1198 and the stored
  temperature from 22 to \<open>22 + 1/288\<close>.
\<close>

theorem monitoring_and_logging_mutate_environment:
  "co2 (classroom occupied_simulation) = 400
   \<and> temperature (classroom occupied_simulation) = 22
   \<and> \<not> isl (data_logging SIMULATION_CONFIG 61 no_jitter occupied_simulation)
   \<and> co2 (classroom (projr (data_logging SIMULATION_CONFIG 61 no_jitter occupied_simulation)))
       = 400.1198
   \<and> temperature
       (classroom (projr (data_logging SIMULATION_CONFIG 61 no_jitter occupied_simulation)))
       = 22 + 1 / 288
   \<and> \<not> isl (ml_monitoring SIMULATION_CONFIG 65 no_jitter occupied_simulation)
   \<and> co2 (classroom (projr (ml_monitoring SIMULATION_CONFIG 65 no_jitter occupied_simulation)))
       = 400.1198
   \<and> temperature
       (classroom (projr (ml_monitoring SIMULATION_CONFIG 65 no_jitter occupied_simulation)))
       = 22 + 1 / 288"
  by (simp add: occupied_simulation_def fresh_simulation_def SmartClassroomSimulation_init_def
      load_model_def LearningEnvironmentClassifier_init_def ClassroomEnvironment_init_def
      data_logging_def ml_monitoring_def predict_def always_conducive_def update_def
      SIMULATION_CONFIG_def no_jitter_def co2_decay_def air_change_rate_def Let_def)

text \<open>
  C5. No process body ever switches an actuator off: of two states reached in the same
  run, after \<open>i\<close> and after \<open>j \<ge> i\<close> process bodies, the later has the fan on if
  the earlier has, and the AC on if the earlier has. This holds for every list of
  process bodies, hence for the agenda of a run.
\<close>

theorem actuators_never_cleared:
  assumes "run_agenda cfg rng k (take i acts) self = Inr si"
    and "run_agenda cfg rng k (take j acts) self = Inr sj"
    and "i \<le> j"
  shows "(fan_on si \<longrightarrow> fan_on sj) \<and> (ac_on si \<longrightarrow> ac_on sj)"
proof -
  from \<open>i \<le> j\<close> have "take j acts = take i acts @ drop i (take j acts)"
    by (metis append_take_drop_id min.absorb1 take_take)
  with assms(2) have
    "run_agenda cfg rng k (take i acts @ drop i (take j acts)) self = Inr sj"
    by simp
  with assms(1) have
    "run_agenda cfg rng (k + length (take i acts)) (drop i (take j acts)) si = Inr sj"
    by (simp add: run_agenda_append)
  then show ?thesis by (rule run_agenda_actuators)
qed

theorem actuators_never_cleared_witness:
  "(\<exists>si sj.
      run_agenda SIMULATION_CONFIG quiet_rng 0
        (take 1 [(0, Monitoring), (0, Logging), (1, Logging)]) stale_simulation = Inr si
    \<and> run_agenda SIMULATION_CONFIG quiet_rng 0
        (take 3 [(0, Monitoring), (0, Logging), (1, Logging)]) stale_simulation = Inr sj
    \<and> \<not> fan_on stale_simulation \<and> fan_on si \<and> fan_on sj)
   \<and> (\<exists>si sj.
      run_agenda SIMULATION_CONFIG quiet_rng 0
        (take 1 [(0, Monitoring), (0, Logging), (1, Logging)]) hot_simulation = Inr si
    \<and> run_agenda SIMULATION_CONFIG quiet_rng 0
        (take 3 [(0, Monitoring), (0, Logging), (1, Logging)]) hot_simulation = Inr sj
    \<and> \<not> ac_on hot_simulation \<and> ac_on si \<and> ac_on sj)"
proof
  let ?acts = "[(0, Monitoring), (0, Logging), (1::nat, Logging)]"
  have cfg: "room_capacity SIMULATION_CONFIG \<noteq> 0" "room_volume SIMULATION_CONFIG \<noteq> 0"
    by (simp_all add: SIMULATION_CONFIG_def)
  have tot: "\<exists>r. never_conducive env = Inr r" for env
    unfolding never_conducive_def by blast
  note defs = fresh_simulation_def SmartClassroomSimulation_init_def
    load_model_def LearningEnvironmentClassifier_init_def ClassroomEnvironment_init_def
    ml_monitoring_def predict_def never_conducive_def update_def quiet_rng_def
    SIMULATION_CONFIG_def no_jitter_def co2_decay_def air_change_rate_def Let_def
    trigger_interventions_def
  show "\<exists>si sj.
      run_agenda SIMULATION_CONFIG quiet_rng 0 (take 1 ?acts) stale_simulation = Inr si
    \<and> run_agenda SIMULATION_CONFIG quiet_rng 0 (take 3 ?acts) stale_simulation = Inr sj
    \<and> \<not> fan_on stale_simulation \<and> fan_on si \<and> fan_on sj"
  proof -
    have m: "model (ml_classifier stale_simulation) = Some never_conducive"
      by (simp add: stale_simulation_def fresh_simulation_fields)
    have off: "\<not> fan_on stale_simulation"
      by (simp add: stale_simulation_def fresh_simulation_fields)
    have "\<exists>si. run_agenda SIMULATION_CONFIG quiet_rng 0 (take 1 ?acts) stale_simulation = Inr si
            \<and> fan_on si"
      by (simp add: stale_simulation_def defs)
    then obtain si where
      si: "run_agenda SIMULATION_CONFIG quiet_rng 0 (take 1 ?acts) stale_simulation = Inr si"
      and on: "fan_on si"
      by blast
    from run_agenda_total [OF cfg m tot] obtain sj where
      sj: "run_agenda SIMULATION_CONFIG quiet_rng 0 (take 3 ?acts) stale_simulation = Inr sj"
      by blast
    from actuators_never_cleared [OF si sj] on have "fan_on sj" by simp
    with si sj off on show ?thesis by blast
  qed
  show "\<exists>si sj.
      run_agenda SIMULATION_CONFIG quiet_rng 0 (take 1 ?acts) hot_simulation = Inr si
    \<and> run_agenda SIMULATION_CONFIG quiet_rng 0 (take 3 ?acts) hot_simulation = Inr sj
    \<and> \<not> ac_on hot_simulation \<and> ac_on si \<and> ac_on sj"
  proof -
    have m: "model (ml_classifier hot_simulation) = Some never_conducive"
      by (simp add: hot_simulation_def fresh_simulation_fields)
    have off: "\<not> ac_on hot_simulation"
      by (simp add: hot_simulation_def fresh_simulation_fields)
    have "\<exists>si. run_agenda SIMULATION_CONFIG quiet_rng 0 (take 1 ?acts) hot_simulation = Inr si
            \<and> ac_on si"
      by (simp add: hot_simulation_def defs)
    then obtain si where
      si: "run_agenda SIMULATION_CONFIG quiet_rng 0 (take 1 ?acts) hot_simulation = Inr si"
      and on: "ac_on si"
      by blast
    from run_agenda_total [OF cfg m tot] obtain sj where
      sj: "run_agenda SIMULATION_CONFIG quiet_rng 0 (take 3 ?acts) hot_simulation = Inr sj"
      by blast
    from actuators_never_cleared [OF si sj] on have "ac_on sj" by simp
    with si sj off on show ?thesis by blast
  qed
qed

text \<open>
  C6. Every call of \<^verbatim>\<open>trigger_interventions\<close> appends exactly one record to the
  intervention history, carrying the time and the CO2 and temperature of the snapshot;
  when no rule matches, the record is appended with the action \<^verbatim>\<open>None\<close>. A
  monitoring pass whose verdict is non-conducive makes exactly one such call.
\<close>

theorem intervention_always_recorded:
  "(\<exists>a. interventions (trigger_interventions cfg now self env p) =
          interventions self @
            [\<lparr> time = now, iv_co2 = env_co2 env, iv_temperature = env_temperature env,
               action = a \<rparr>]
        \<and> (\<not> env_co2 env > co2_max (thresholds cfg)
            \<and> \<not> env_temperature env > temp_max (thresholds cfg)
            \<and> \<not> env_noise env > noise_max (thresholds cfg) \<longrightarrow> a = None))
   \<and> (update cfg (classroom self) 1 (student_count (classroom self))
           (fan_on self) (ac_on self) g = Inr (c, env)
        \<and> predict (ml_classifier self) env = Inr p \<and> \<not> conducive p \<longrightarrow>
        (\<exists>self' a. ml_monitoring cfg now g self = Inr self'
           \<and> interventions self' =
               interventions self @
                 [\<lparr> time = now, iv_co2 = env_co2 env, iv_temperature = env_temperature env,
                    action = a \<rparr>]
           \<and> (\<not> env_co2 env > co2_max (thresholds cfg)
               \<and> \<not> env_temperature env > temp_max (thresholds cfg)
               \<and> \<not> env_noise env > noise_max (thresholds cfg) \<longrightarrow> a = None)))"
proof (intro conjI impI)
  show "\<exists>a. interventions (trigger_interventions cfg now self env p) =
          interventions self @
            [\<lparr> time = now, iv_co2 = env_co2 env, iv_temperature = env_temperature env,
               action = a \<rparr>]
        \<and> (\<not> env_co2 env > co2_max (thresholds cfg)
            \<and> \<not> env_temperature env > temp_max (thresholds cfg)
            \<and> \<not> env_noise env > noise_max (thresholds cfg) \<longrightarrow> a = None)"
    by (simp add: trigger_interventions_history)
next
  assume "update cfg (classroom self) 1 (student_count (classroom self))
           (fan_on self) (ac_on self) g = Inr (c, env)
        \<and> predict (ml_classifier self) env = Inr p \<and> \<not> conducive p"
  then have "ml_monitoring cfg now g self
               = Inr (trigger_interventions cfg now (self \<lparr> classroom := c \<rparr>) env p)"
    by (simp add: ml_monitoring_non_conducive)
  then show "\<exists>self' a. ml_monitoring cfg now g self = Inr self'
           \<and> interventions self' =
               interventions self @
                 [\<lparr> time = now, iv_co2 = env_co2 env, iv_temperature = env_temperature env,
                    action = a \<rparr>]
           \<and> (\<not> env_co2 env > co2_max (thresholds cfg)
               \<and> \<not> env_temperature env > temp_max (thresholds cfg)
               \<and> \<not> env_noise env > noise_max (thresholds cfg) \<longrightarrow> a = None)"
    by (simp add: trigger_interventions_history)
qed

theorem intervention_always_recorded_witness:
  "\<exists>self'. ml_monitoring SIMULATION_CONFIG 0 no_jitter (fresh_simulation never_conducive)
              = Inr self'
     \<and> interventions self'
         = [\<lparr> time = 0, iv_co2 = 400, iv_temperature = 22, action = None \<rparr>]"
proof -
  let ?s = "fresh_simulation never_conducive"
  let ?p = "\<lparr> conducive = False, confidence = 1,
              pred_thresholds = clf_thresholds (ml_classifier ?s) \<rparr>"
  have cfg: "room_capacity SIMULATION_CONFIG \<noteq> 0 \<and> room_volume SIMULATION_CONFIG \<noteq> 0"
    by (simp add: SIMULATION_CONFIG_def)
  obtain c env where
    u: "update SIMULATION_CONFIG (classroom ?s) 1 (student_count (classroom ?s))
          (fan_on ?s) (ac_on ?s) no_jitter = Inr (c, env)"
    using update_Inr_iff [of SIMULATION_CONFIG "classroom ?s" 1 "student_count (classroom ?s)"
        "fan_on ?s" "ac_on ?s" no_jitter] cfg
    by auto
  from update_stored [OF u] have c: "co2 c = 400" "noise c = 40" "temperature c = 22"
    by (simp_all add: fresh_simulation_fields ClassroomEnvironment_init_def no_jitter_def
        co2_decay_def)
  with update_snapshot [OF u] have env:
    "env_co2 env = 400" "env_noise env = 40" "env_temperature env = 22"
    by simp_all
  have p: "predict (ml_classifier ?s) env = Inr ?p"
    by (simp add: predict_def fresh_simulation_fields never_conducive_def)
  have th: "co2_max (thresholds SIMULATION_CONFIG) = 1000"
    "temp_max (thresholds SIMULATION_CONFIG) = 26"
    "noise_max (thresholds SIMULATION_CONFIG) = 65"
    by (simp_all add: SIMULATION_CONFIG_def)
  from intervention_always_recorded
    [of SIMULATION_CONFIG 0 ?s env ?p no_jitter c] u p
  show ?thesis
    by (auto simp: env th fresh_simulation_fields)
qed







text \<open>
  C9. For one and the same CO2 value above 400 ppm and a positive time step, the decay
  term that \<^verbatim>\<open>update\<close> subtracts with the fan on (rate 0.5) is strictly larger than
  the one it subtracts with the fan off (rate 0.1). \<^verbatim>\<open>update\<close> computes the term
  from the CO2 value to which the production of the step has already been added; with a
  non-negative student count and production rate, two calls from the same state that
  differ only in the fan therefore leave strictly less CO2 stored with the fan on.
\<close>

theorem co2_decay_fan_monotonic:
  assumes "400 < c" and "0 < dt"
  shows "co2_decay False c dt < co2_decay True c dt
       \<and> (\<forall>cfg self sc ac g s_on e_on s_off e_off.
            co2 self = c \<and> 0 \<le> sc \<and> 0 \<le> co2_per_person cfg
            \<and> update cfg self dt sc True ac g = Inr (s_on, e_on)
            \<and> update cfg self dt sc False ac g = Inr (s_off, e_off)
            \<longrightarrow> co2 s_on < co2 s_off)"
proof (intro conjI allI impI)
  from assms show "co2_decay False c dt < co2_decay True c dt"
    by (rule co2_decay_less)
next
  fix cfg self sc ac g s_on e_on s_off e_off
  assume h: "co2 self = c \<and> 0 \<le> sc \<and> 0 \<le> co2_per_person cfg
            \<and> update cfg self dt sc True ac g = Inr (s_on, e_on)
            \<and> update cfg self dt sc False ac g = Inr (s_off, e_off)"
  let ?c1 = "co2 self + real_of_int sc * co2_per_person cfg * dt"
  from h have c: "co2 self = c" and sc: "0 \<le> sc" and rate: "0 \<le> co2_per_person cfg"
    by simp_all
  from sc rate assms(2) have "0 \<le> real_of_int sc * co2_per_person cfg * dt" by simp
  with c assms(1) have "400 < ?c1" by linarith
  then have "co2_decay False ?c1 dt < co2_decay True ?c1 dt"
    using assms(2) by (rule co2_decay_less)
  moreover from h have "update cfg self dt sc True ac g = Inr (s_on, e_on)" by simp
  then have "co2 s_on = ?c1 - co2_decay True ?c1 dt + g_co2 g"
    by (rule update_stored(1))
  moreover from h have "update cfg self dt sc False ac g = Inr (s_off, e_off)" by simp
  then have "co2 s_off = ?c1 - co2_decay False ?c1 dt + g_co2 g"
    by (rule update_stored(1))
  ultimately show "co2 s_on < co2 s_off" by simp
qed

theorem co2_decay_fan_monotonic_witness:
  "(400::real) < 1000 \<and> (0::real) < 1
   \<and> co2_decay False 1000 1 = 1 \<and> co2_decay True 1000 1 = 5
   \<and> co2_decay False 1000 1 < co2_decay True 1000 1
   \<and> (\<exists>s_on e_on s_off e_off.
        update SIMULATION_CONFIG (ClassroomEnvironment_init \<lparr> co2 := 1000 \<rparr>) 1 30 True False
          no_jitter = Inr (s_on, e_on)
      \<and> update SIMULATION_CONFIG (ClassroomEnvironment_init \<lparr> co2 := 1000 \<rparr>) 1 30 False False
          no_jitter = Inr (s_off, e_off)
      \<and> co2 s_on < co2 s_off)"
proof -
  let ?self = "ClassroomEnvironment_init \<lparr> co2 := 1000 \<rparr>"
  have cfg: "room_capacity SIMULATION_CONFIG \<noteq> 0 \<and> room_volume SIMULATION_CONFIG \<noteq> 0"
    and rate: "0 \<le> co2_per_person SIMULATION_CONFIG"
    by (simp_all add: SIMULATION_CONFIG_def)
  obtain s_on e_on where
    on: "update SIMULATION_CONFIG ?self 1 30 True False no_jitter = Inr (s_on, e_on)"
    using update_Inr_iff [of SIMULATION_CONFIG ?self 1 30 True False no_jitter] cfg by auto
  obtain s_off e_off where
    off: "update SIMULATION_CONFIG ?self 1 30 False False no_jitter = Inr (s_off, e_off)"
    using update_Inr_iff [of SIMULATION_CONFIG ?self 1 30 False False no_jitter] cfg by auto
  have "(400::real) < 1000" and "(0::real) < 1" by simp_all
  note m = co2_decay_fan_monotonic [OF this]
  from m have 1: "co2_decay False 1000 1 < co2_decay True 1000 1" by simp
  have "co2 ?self = 1000" and "(0::int) \<le> 30" by simp_all
  with m on off rate have 2: "co2 s_on < co2 s_off" by blast
  have 3: "co2_decay False 1000 1 = 1 \<and> co2_decay True 1000 1 = 5"
    by (simp add: co2_decay_def air_change_rate_def)
  from 1 2 3 on off show ?thesis by auto
qed

text \<open>
  C10. The floors are applied to the returned dictionary only. After a call the stored
  \<open>co2\<close> and \<open>noise\<close> are the unclamped values, the dictionary holds their maximum
  with 400 and 30, and the next call computes production and decay from the stored
  unclamped \<open>co2\<close>, not from the clamped value that was returned.
\<close>

theorem update_floors_only_on_snapshot:
  assumes "update cfg self dt sc fan ac g = Inr (self', snap)"
    and "update cfg self' dt' sc' fan' ac' g' = Inr (self'', snap')"
  shows "co2 self' =
           co2 self + real_of_int sc * co2_per_person cfg * dt
           - co2_decay fan (co2 self + real_of_int sc * co2_per_person cfg * dt) dt
           + g_co2 g
       \<and> noise self' = 40 + real_of_int sc * 0.8 + g_noise g
       \<and> env_co2 snap = max 400 (co2 self')
       \<and> env_noise snap = max 30 (noise self')
       \<and> co2 self'' =
           co2 self' + real_of_int sc' * co2_per_person cfg * dt'
           - co2_decay fan' (co2 self' + real_of_int sc' * co2_per_person cfg * dt') dt'
           + g_co2 g'"
  using update_stored(1,2) [OF assms(1)] update_snapshot(1,2) [OF assms(1)]
    update_stored(1) [OF assms(2)]
  by simp

theorem update_floors_only_on_snapshot_witness:
  "\<exists>self' snap self'' snap'.
     update SIMULATION_CONFIG ClassroomEnvironment_init 1 0 False False below_floor_draw
       = Inr (self', snap)
     \<and> update SIMULATION_CONFIG self' 1 0 False False no_jitter = Inr (self'', snap')
     \<and> co2 self' = 375 \<and> noise self' = 25
     \<and> env_co2 snap = 400 \<and> env_noise snap = 30
     \<and> co2 self'' = 375 + 1 / 24"
proof -
  have cfg: "room_capacity SIMULATION_CONFIG \<noteq> 0 \<and> room_volume SIMULATION_CONFIG \<noteq> 0"
    by (simp add: SIMULATION_CONFIG_def)
  obtain self' snap where
    u1: "update SIMULATION_CONFIG ClassroomEnvironment_init 1 0 False False below_floor_draw
           = Inr (self', snap)"
    using update_Inr_iff [of SIMULATION_CONFIG ClassroomEnvironment_init 1 0 False False
        below_floor_draw] cfg
    by auto
  obtain self'' snap' where
    u2: "update SIMULATION_CONFIG self' 1 0 False False no_jitter = Inr (self'', snap')"
    using update_Inr_iff [of SIMULATION_CONFIG self' 1 0 False False no_jitter] cfg
    by auto
  note f = update_floors_only_on_snapshot [OF u1 u2]
  from f have c: "co2 self' = 375"
    by (simp add: ClassroomEnvironment_init_def below_floor_draw_def co2_decay_def)
  from f have n: "noise self' = 25"
    by (simp add: below_floor_draw_def)
  from f c have c2: "co2 self'' = 375 + 1 / 24"
    by (simp add: no_jitter_def co2_decay_def air_change_rate_def)
  from f c n have "env_co2 snap = 400" and "env_noise snap = 30"
    by simp_all
  with u1 u2 c n c2 show ?thesis by blast
qed

end
